theory Spec2Isabelle
  imports Main
begin

section \<open>Application lifespan (main.py)\<close>

text \<open>
  \<^verbatim>\<open>main.py\<close> wraps the whole run of the application in
  \<^verbatim>\<open>try: yield finally: await engine.dispose()\<close>.
  The engine comes from \<^verbatim>\<open>database.db\<close>; all that matters of it here is whether
  it has been disposed. The part of the run between start-up and shutdown (everything
  that happens while the generator is suspended at \<^verbatim>\<open>yield\<close>) is a function from
  the state to a new state and an outcome: it either ends normally or an exception is
  thrown into the generator at the \<^verbatim>\<open>yield\<close>.
\<close>

record app_state =
  engine_disposed :: bool
  requests_served :: nat

datatype 'e outcome = Returned | Raised 'e

definition engine_dispose :: "app_state \<Rightarrow> app_state" where
  "engine_dispose s = s\<lparr>engine_disposed := True\<rparr>"

definition lifespan :: "(app_state \<Rightarrow> app_state \<times> 'e outcome) \<Rightarrow> app_state \<Rightarrow> app_state \<times> 'e outcome" where
  "lifespan body s =
     (case body s of
        (s', Returned) \<Rightarrow> (engine_dispose s', Returned)
      | (s', Raised e) \<Rightarrow> (engine_dispose s', Raised e))"

section \<open>Configuration (settings.py)\<close>

text \<open>
  \<^verbatim>\<open>Settings\<close> is a pydantic-settings class: every field is filled from the
  configuration sources (process environment, then the file \<^verbatim>\<open>.{ENVIRONMENT}.env\<close>)
  and, where no source supplies it, from the default written in the class body.
  Construction fails, with all the errors found, when a field without a default is
  supplied by no source, when a supplied text is not a value of its field's type, or when
  the env file has a key that is no field of the class (pydantic-settings forbids extra
  keys unless the class allows them, and \<^verbatim>\<open>model_config\<close> does not).

  \<open>settings_source\<close> is what the sources supply.
  \<^item> For a \<^verbatim>\<open>str\<close> field: nothing, or the text; every text is a \<^verbatim>\<open>str\<close>.
  \<^item> For \<^verbatim>\<open>auth_timezone\<close>: nothing, or the text; the field is a
    \<^verbatim>\<open>TimeZoneName\<close>, which accepts exactly the time zone names known to the process.
  \<^item> For \<^verbatim>\<open>email_backend\<close>: nothing, or the text; the field accepts exactly the three
    literals of the class body.
  \<^item> For an \<^verbatim>\<open>int\<close> or \<^verbatim>\<open>bool\<close> field: nothing, or the number or truth value that
    pydantic converted the supplied text to. The conversion is pydantic's, not this
    repository's; a field whose supplied text pydantic could not convert is listed in
    \<open>src_unconvertible\<close>.
  \<^item> \<open>src_env_file_extra\<close>: the keys of the env file that pydantic-settings matches to
    no field.

  Three things are fixed when the process imports its modules and are inputs of the model
  (\<open>process_env\<close>): the key that \<^verbatim>\<open>Fernet.generate_key().decode()\<close> returned in the
  class body, the directory of \<^verbatim>\<open>settings.py\<close>, and the time zone names that
  \<^verbatim>\<open>TimeZoneName\<close> accepts.
\<close>

datatype email_backend = Smtp | Azure | Console

definition email_backend_of :: "string \<Rightarrow> email_backend option" where
  "email_backend_of t =
     (if t = ''smtp'' then Some Smtp
      else if t = ''azure'' then Some Azure
      else if t = ''console'' then Some Console
      else None)"

record process_env =
  generated_key :: string
  base_dir :: string
  time_zone_names :: "string list"

record settings_source =
  src_auth_database_url :: "string option"
  src_auth_timezone :: "string option"
  src_project_name :: "string option"
  src_jwt_secret_key :: "string option"
  src_jwt_algorithm :: "string option"
  src_jwt_access_token_expire_minutes :: "int option"
  src_jwt_refresh_token_expire_minutes :: "int option"
  src_jwt_audience :: "string option"
  src_encryption_key :: "string option"
  src_email_backend :: "string option"
  src_templates_dir :: "string option"
  src_smtp_host :: "string option"
  src_smtp_port :: "int option"
  src_smtp_username :: "string option"
  src_smtp_password :: "string option"
  src_smtp_from :: "string option"
  src_smtp_use_tls :: "bool option"
  src_smtp_timeout :: "int option"
  src_azure_email_service_name :: "string option"
  src_azure_email_service_endpoint :: "string option"
  src_azure_email_service_api_key :: "string option"
  src_custom_user_model :: "string option"
  src_custom_user_profile_model :: "string option"
  src_passwordless_login_enabled :: "bool option"
  src_email_verification_required :: "bool option"
  src_unconvertible :: "string list"
  src_env_file_extra :: "string list"

record Settings =
  auth_database_url :: string
  auth_timezone :: string
  project_name :: string
  jwt_secret_key :: string
  jwt_algorithm :: string
  jwt_access_token_expire_minutes :: int
  jwt_refresh_token_expire_minutes :: int
  jwt_audience :: string
  encryption_key :: string
  email_backend :: email_backend
  templates_dir :: string
  smtp_host :: "string option"
  smtp_port :: "int option"
  smtp_username :: "string option"
  smtp_password :: "string option"
  smtp_from :: "string option"
  smtp_use_tls :: bool
  smtp_timeout :: int
  azure_email_service_name :: "string option"
  azure_email_service_endpoint :: "string option"
  azure_email_service_api_key :: "string option"
  custom_user_model :: "string option"
  custom_user_profile_model :: "string option"
  passwordless_login_enabled :: bool
  email_verification_required :: bool

datatype settings_error = MissingField string | InvalidValue string | ExtraForbidden string

definition or_default :: "'a option \<Rightarrow> 'a \<Rightarrow> 'a" where
  "or_default supplied d = (case supplied of None \<Rightarrow> d | Some v \<Rightarrow> v)"

text \<open>
  The errors of one construction. \<^verbatim>\<open>auth_database_url\<close> is the only field without a
  default, so the only one that can be missing. A default is not validated: the default
  time zone \<^verbatim>\<open>"UTC"\<close> is taken whether or not the process knows that name.
\<close>

definition source_errors :: "process_env \<Rightarrow> settings_source \<Rightarrow> settings_error list" where
  "source_errors p src =
     (case src_auth_database_url src of
        None \<Rightarrow> [MissingField ''auth_database_url'']
      | Some _ \<Rightarrow> [])
     @ (case src_auth_timezone src of
          None \<Rightarrow> []
        | Some tz \<Rightarrow> if tz \<in> set (time_zone_names p) then [] else [InvalidValue ''auth_timezone''])
     @ (case src_email_backend src of
          None \<Rightarrow> []
        | Some t \<Rightarrow> (case email_backend_of t of None \<Rightarrow> [InvalidValue ''email_backend''] | Some _ \<Rightarrow> []))
     @ map InvalidValue (src_unconvertible src)
     @ map ExtraForbidden (src_env_file_extra src)"

definition Settings_init :: "process_env \<Rightarrow> settings_source \<Rightarrow> settings_error list + Settings" where
  "Settings_init p src =
     (case (src_auth_database_url src, source_errors p src) of
        (Some url, []) \<Rightarrow> Inr
         \<lparr> auth_database_url = url,
           auth_timezone = or_default (src_auth_timezone src) ''UTC'',
           project_name = or_default (src_project_name src) ''fastapi-auth'',
           jwt_secret_key = or_default (src_jwt_secret_key src) ''sample-secret-key-dont-use-in-production'',
           jwt_algorithm = or_default (src_jwt_algorithm src) ''HS256'',
           jwt_access_token_expire_minutes = or_default (src_jwt_access_token_expire_minutes src) 30,
           jwt_refresh_token_expire_minutes = or_default (src_jwt_refresh_token_expire_minutes src) (60 * 24 * 30),
           jwt_audience = or_default (src_jwt_audience src) ''fastapi-auth'',
           encryption_key = or_default (src_encryption_key src) (generated_key p),
           email_backend = or_default (Option.bind (src_email_backend src) email_backend_of) Smtp,
           templates_dir = or_default (src_templates_dir src) (base_dir p @ ''/templates''),
           smtp_host = src_smtp_host src,
           smtp_port = src_smtp_port src,
           smtp_username = src_smtp_username src,
           smtp_password = src_smtp_password src,
           smtp_from = src_smtp_from src,
           smtp_use_tls = or_default (src_smtp_use_tls src) True,
           smtp_timeout = or_default (src_smtp_timeout src) 10,
           azure_email_service_name = src_azure_email_service_name src,
           azure_email_service_endpoint = src_azure_email_service_endpoint src,
           azure_email_service_api_key = src_azure_email_service_api_key src,
           custom_user_model = src_custom_user_model src,
           custom_user_profile_model = src_custom_user_profile_model src,
           passwordless_login_enabled = or_default (src_passwordless_login_enabled src) False,
           email_verification_required = or_default (src_email_verification_required src) False \<rparr>
      | (_, errs) \<Rightarrow> Inl errs)"

text \<open>
  \<^verbatim>\<open>get_settings\<close> is wrapped in \<^verbatim>\<open>lru_cache\<close>: the first call that returns
  stores its result, every later call of the process returns the stored object.
  A call that raises stores nothing.
\<close>

definition get_settings ::
  "process_env \<Rightarrow> settings_source \<Rightarrow> Settings option \<Rightarrow> (settings_error list + Settings) \<times> Settings option" where
  "get_settings p src cache =
     (case cache of
        Some s \<Rightarrow> (Inr s, cache)
      | None \<Rightarrow>
         (case Settings_init p src of
            Inl e \<Rightarrow> (Inl e, None)
          | Inr s \<Rightarrow> (Inr s, Some s)))"

text \<open>A configuration that supplies the database URL and nothing else.\<close>

definition source_only_db :: settings_source where
  "source_only_db =
     \<lparr> src_auth_database_url = Some ''sqlite+aiosqlite:///auth.db'',
       src_auth_timezone = None, src_project_name = None, src_jwt_secret_key = None,
       src_jwt_algorithm = None, src_jwt_access_token_expire_minutes = None,
       src_jwt_refresh_token_expire_minutes = None, src_jwt_audience = None,
       src_encryption_key = None, src_email_backend = None, src_templates_dir = None,
       src_smtp_host = None, src_smtp_port = None, src_smtp_username = None,
       src_smtp_password = None, src_smtp_from = None, src_smtp_use_tls = None,
       src_smtp_timeout = None, src_azure_email_service_name = None,
       src_azure_email_service_endpoint = None, src_azure_email_service_api_key = None,
       src_custom_user_model = None, src_custom_user_profile_model = None,
       src_passwordless_login_enabled = None, src_email_verification_required = None,
       src_unconvertible = [], src_env_file_extra = [] \<rparr>"

text \<open>Two processes started from the same installation; only the generated key differs.\<close>

definition run_a :: process_env where
  "run_a = \<lparr> generated_key = ''AAAAAAAAAAAAAAAAAAAAAAAAAAAAAAAAAAAAAAAAAAA='', base_dir = ''/app'',
             time_zone_names = [''UTC'', ''Europe/Berlin'', ''Asia/Kolkata''] \<rparr>"

definition run_b :: process_env where
  "run_b = \<lparr> generated_key = ''__________________________________________8='', base_dir = ''/app'',
             time_zone_names = [''UTC'', ''Europe/Berlin'', ''Asia/Kolkata''] \<rparr>"

section \<open>Payload schemas (schemas/user.py)\<close>

text \<open>
  The schemas are pydantic models (pydantic 2: \<^verbatim>\<open>settings.py\<close> uses
  \<^verbatim>\<open>pydantic_settings\<close> and \<^verbatim>\<open>model_config\<close>). A payload is a dictionary from field
  names to JSON values. Validation treats each declared field on its own and reports
  every failure it finds:
  \<^item> a field annotated \<^verbatim>\<open>str\<close> must be present and hold a string;
  \<^item> a field annotated \<^verbatim>\<open>str | None\<close> with no default must be present as well, and
    holds a string or null. None of the fields in \<^verbatim>\<open>schemas/user.py\<close> has a default.
  Keys of the payload that are no field of the model are ignored.
\<close>

datatype json = JNull | JBool bool | JNum int | JStr string | JArr "json list" | JObj "(string \<times> json) list"

type_synonym payload = "string \<rightharpoonup> json"

datatype validation_error = Missing string | StringType string

definition required_str :: "payload \<Rightarrow> string \<Rightarrow> validation_error + string" where
  "required_str d f =
     (case d f of
        None \<Rightarrow> Inl (Missing f)
      | Some (JStr v) \<Rightarrow> Inr v
      | Some _ \<Rightarrow> Inl (StringType f))"

definition required_nullable_str :: "payload \<Rightarrow> string \<Rightarrow> validation_error + string option" where
  "required_nullable_str d f =
     (case d f of
        None \<Rightarrow> Inl (Missing f)
      | Some JNull \<Rightarrow> Inr None
      | Some (JStr v) \<Rightarrow> Inr (Some v)
      | Some _ \<Rightarrow> Inl (StringType f))"

definition errors_of :: "validation_error + 'a \<Rightarrow> validation_error list" where
  "errors_of r = (case r of Inl e \<Rightarrow> [e] | Inr _ \<Rightarrow> [])"

record UserPasswordLoginSchema =
  email :: string
  password :: "string option"

definition UserPasswordLoginSchema_validate :: "payload \<Rightarrow> validation_error list + UserPasswordLoginSchema" where
  "UserPasswordLoginSchema_validate d =
     (case (required_str d ''email'', required_nullable_str d ''password'') of
        (Inr e, Inr p) \<Rightarrow>
          Inr \<lparr> UserPasswordLoginSchema.email = e, UserPasswordLoginSchema.password = p \<rparr>
      | (e, p) \<Rightarrow> Inl (errors_of e @ errors_of p))"

record UserSignupSchema =
  email :: string
  password :: "string option"
  name :: "string option"
  profile_pic :: "string option"

definition UserSignupSchema_validate :: "payload \<Rightarrow> validation_error list + UserSignupSchema" where
  "UserSignupSchema_validate d =
     (case (required_str d ''email'', required_nullable_str d ''password'',
            required_nullable_str d ''name'', required_nullable_str d ''profile_pic'') of
        (Inr e, Inr p, Inr n, Inr pic) \<Rightarrow>
          Inr \<lparr> UserSignupSchema.email = e, UserSignupSchema.password = p,
                UserSignupSchema.name = n, UserSignupSchema.profile_pic = pic \<rparr>
      | (e, p, n, pic) \<Rightarrow> Inl (errors_of e @ errors_of p @ errors_of n @ errors_of pic))"

record UserJWTResponseSchema =
  access_token :: string
  refresh_token :: string

definition UserJWTResponseSchema_validate :: "payload \<Rightarrow> validation_error list + UserJWTResponseSchema" where
  "UserJWTResponseSchema_validate d =
     (case (required_str d ''access_token'', required_str d ''refresh_token'') of
        (Inr a, Inr r) \<Rightarrow>
          Inr \<lparr> UserJWTResponseSchema.access_token = a, UserJWTResponseSchema.refresh_token = r \<rparr>
      | (a, r) \<Rightarrow> Inl (errors_of a @ errors_of r))"

record UserSocialLoginSchema =
  provider :: string
  access_token :: "string option"
  code :: "string option"

definition UserSocialLoginSchema_validate :: "payload \<Rightarrow> validation_error list + UserSocialLoginSchema" where
  "UserSocialLoginSchema_validate d =
     (case (required_str d ''provider'', required_nullable_str d ''access_token'',
            required_nullable_str d ''code'') of
        (Inr p, Inr a, Inr c) \<Rightarrow>
          Inr \<lparr> UserSocialLoginSchema.provider = p, UserSocialLoginSchema.access_token = a,
                UserSocialLoginSchema.code = c \<rparr>
      | (p, a, c) \<Rightarrow> Inl (errors_of p @ errors_of a @ errors_of c))"

record UserSignupResponseSchema =
  access_token :: "string option"
  refresh_token :: "string option"
  message :: string

definition UserSignupResponseSchema_validate :: "payload \<Rightarrow> validation_error list + UserSignupResponseSchema" where
  "UserSignupResponseSchema_validate d =
     (case (required_nullable_str d ''access_token'', required_nullable_str d ''refresh_token'',
            required_str d ''message'') of
        (Inr a, Inr r, Inr m) \<Rightarrow>
          Inr \<lparr> UserSignupResponseSchema.access_token = a, UserSignupResponseSchema.refresh_token = r,
                UserSignupResponseSchema.message = m \<rparr>
      | (a, r, m) \<Rightarrow> Inl (errors_of a @ errors_of r @ errors_of m))"

text \<open>
  What a schema declares, as data: the fields annotated \<^verbatim>\<open>str\<close> and the fields
  annotated \<^verbatim>\<open>str | None\<close>, and when a payload supplies a field acceptably.
\<close>

definition holds_str :: "payload \<Rightarrow> string \<Rightarrow> bool" where
  "holds_str d f = (case d f of Some (JStr _) \<Rightarrow> True | _ \<Rightarrow> False)"

definition holds_str_or_null :: "payload \<Rightarrow> string \<Rightarrow> bool" where
  "holds_str_or_null d f = (case d f of Some (JStr _) \<Rightarrow> True | Some JNull \<Rightarrow> True | _ \<Rightarrow> False)"

section \<open>The user table (models/user.py)\<close>

text \<open>
  \<^verbatim>\<open>User\<close> maps the table \<^verbatim>\<open>auth_users\<close>. The record has the columns the class
  declares, with the nullability the class declares: \<^verbatim>\<open>email\<close> is
  \<^verbatim>\<open>nullable=False, unique=True\<close>; \<^verbatim>\<open>name\<close>, \<^verbatim>\<open>profile_pic\<close> and
  \<^verbatim>\<open>password\<close> are \<^verbatim>\<open>nullable=True\<close>; \<^verbatim>\<open>is_staff\<close> is
  \<^verbatim>\<open>nullable=False, default=False\<close>. The columns inherited from \<^verbatim>\<open>models.base.Base\<close>
  are not part of the record, and a role is known by its name only.
\<close>

datatype Role = Role string

record User =
  name :: "string option"
  email :: string
  profile_pic :: "string option"
  password :: "string option"
  roles :: "Role list"
  is_staff :: bool

text \<open>
  A \<^verbatim>\<open>User(...)\<close> object before it is flushed: the constructor takes any of the mapped
  attributes as keyword arguments, and an attribute that was not given (or was given as
  \<^verbatim>\<open>None\<close>) has no value.
\<close>

record User_kwargs =
  kw_name :: "string option"
  kw_email :: "string option"
  kw_profile_pic :: "string option"
  kw_password :: "string option"
  kw_roles :: "Role list"
  kw_is_staff :: "bool option"

datatype db_error = NotNullViolation string | UniqueViolation string

text \<open>
  The INSERT that a flush issues for a pending \<^verbatim>\<open>User\<close>. A column without a value gets
  its default when it has one (\<^verbatim>\<open>is_staff\<close>) and NULL otherwise; NULL in
  \<^verbatim>\<open>email\<close> violates \<^verbatim>\<open>nullable=False\<close>, an \<^verbatim>\<open>email\<close> equal to a stored one
  violates \<^verbatim>\<open>unique=True\<close>. The comparison of the unique index is exact, character by
  character.
\<close>

definition insert_User :: "User list \<Rightarrow> User_kwargs \<Rightarrow> db_error + User list" where
  "insert_User tbl kw =
     (case kw_email kw of
        None \<Rightarrow> Inl (NotNullViolation ''email'')
      | Some e \<Rightarrow>
          if e \<in> set (map User.email tbl) then Inl (UniqueViolation ''email'')
          else Inr (tbl @
            [\<lparr> User.name = kw_name kw, User.email = e, User.profile_pic = kw_profile_pic kw,
               User.password = kw_password kw, User.roles = kw_roles kw,
               User.is_staff = or_default (kw_is_staff kw) False \<rparr>]))"

section \<open>User directory and password login\<close>

text \<open>
  Modelled from the spec: the failures of the error taxonomy (section 7 of the spec). No
  source file declares them. \<open>StorageFault\<close> stands for the storage faults that the
  spec keeps apart from the authentication failures.
\<close>

datatype token_error = Malformed | Expired | SignatureInvalid | KindMismatch

datatype auth_error =
    InvalidCredentials | ProviderError | UnverifiedIdentity | CodeExpired | CodeInvalid
  | TokenError token_error | ReuseDetected | Revoked | DecryptionError | DuplicateEmail
  | StorageFault db_error

text \<open>
  Modelled from the spec: the case normalisation of an email address. No source file
  normalises an address; the spec calls the stored email "case-normalized" and has the
  password strategy look the user up "by normalized email". Normalisation here maps the
  letters A to Z to a to z and leaves every other character as it is.
\<close>

definition lower_char :: "char \<Rightarrow> char" where
  "lower_char c =
     (let n = (of_char c :: nat) in if 65 \<le> n \<and> n \<le> 90 then char_of (n + 32) else c)"

definition normalize_email :: "string \<Rightarrow> string" where
  "normalize_email e = map lower_char e"

text \<open>
  Modelled from the spec: \<open>findByEmail\<close> of the User Directory, which is not among the
  source files. The directory keeps its users in the table above; the lookup is by
  normalized email.
\<close>

definition findByEmail :: "User list \<Rightarrow> string \<Rightarrow> User option" where
  "findByEmail dir e = find (\<lambda>u. User.email u = normalize_email e) dir"

text \<open>
  Modelled from the spec: \<open>create\<close> of the User Directory, which is not among the source
  files. The spec: a user is created with an email and optionally a display name, a
  profile picture and a password hash; email uniqueness is enforced at the directory
  boundary, and signup with an email already present fails with \<open>DuplicateEmail\<close>.
  The new row goes through the INSERT of the table above, with no roles and no
  \<^verbatim>\<open>is_staff\<close> value.
\<close>

definition create ::
  "User list \<Rightarrow> string \<Rightarrow> string option \<Rightarrow> string option \<Rightarrow> string option \<Rightarrow> auth_error + User list" where
  "create dir e n pic pw_hash =
     (case findByEmail dir e of
        Some _ \<Rightarrow> Inl DuplicateEmail
      | None \<Rightarrow>
         (case insert_User dir
                 \<lparr> kw_name = n, kw_email = Some (normalize_email e), kw_profile_pic = pic,
                   kw_password = pw_hash, kw_roles = [], kw_is_staff = None \<rparr> of
            Inl err \<Rightarrow> Inl (StorageFault err)
          | Inr dir' \<Rightarrow> Inr dir'))"

text \<open>
  Modelled from the spec: \<open>update\<close> of the User Directory, which is not among the source
  files. The spec: a user is "mutated on profile update, password change, role
  assignment". An update addresses the user by email and names, for the display name, the
  profile picture and the password hash, either no change (\<open>None\<close>) or the new value,
  which may be absent.
\<close>

record User_changes =
  set_name :: "string option option"
  set_profile_pic :: "string option option"
  set_password :: "string option option"

definition apply_changes :: "User_changes \<Rightarrow> User \<Rightarrow> User" where
  "apply_changes ch u =
     u\<lparr> User.name := or_default (set_name ch) (User.name u),
        User.profile_pic := or_default (set_profile_pic ch) (User.profile_pic u),
        User.password := or_default (set_password ch) (User.password u) \<rparr>"

definition update :: "User list \<Rightarrow> string \<Rightarrow> User_changes \<Rightarrow> User list" where
  "update dir e ch =
     map (\<lambda>u. if User.email u = normalize_email e then apply_changes ch u else u) dir"

text \<open>
  Modelled from the spec: \<open>assignRole\<close> of the User Directory, which is not among the
  source files. The roles of a user are a set: assigning a role the user has changes
  nothing.
\<close>

definition assignRole :: "User list \<Rightarrow> string \<Rightarrow> Role \<Rightarrow> User list" where
  "assignRole dir e r =
     map (\<lambda>u. if User.email u = normalize_email e
               then u\<lparr> User.roles := List.insert r (User.roles u) \<rparr> else u) dir"

text \<open>
  The shape the spec requires of the stored users: emails unique and case-normalized.
  That the email is present, and that display name, profile picture and password hash may
  be absent, is in the type of the record.
\<close>

definition directory_ok :: "User list \<Rightarrow> bool" where
  "directory_ok dir \<longleftrightarrow>
     distinct (map User.email dir) \<and> list_all (\<lambda>u. normalize_email (User.email u) = User.email u) dir"

text \<open>
  Modelled from the spec: the password strategy of the Login Strategy Dispatcher, which
  is not among the source files. The spec: it "looks up User by normalized email; fails
  with \<open>InvalidCredentials\<close> if absent or password hash missing or verification fails
  [...]. On success returns the User." The Credential Verifier's \<open>verify\<close> is not among
  the source files either and is a parameter.
\<close>

definition password_login ::
  "(string \<Rightarrow> string \<Rightarrow> bool) \<Rightarrow> User list \<Rightarrow> string \<Rightarrow> string \<Rightarrow> auth_error + User" where
  "password_login verify dir e pw =
     (case findByEmail dir e of
        None \<Rightarrow> Inl InvalidCredentials
      | Some u \<Rightarrow>
         (case User.password u of
            None \<Rightarrow> Inl InvalidCredentials
          | Some h \<Rightarrow> if verify pw h then Inr u else Inl InvalidCredentials))"

section \<open>Theorems\<close>

subsection \<open>Lifespan\<close>

text \<open>
  C9. On shutdown the database engine is disposed on every exit path of the lifespan:
  whether the body between start-up and shutdown ends normally or with an exception,
  the state after \<open>lifespan\<close> has the engine disposed, the outcome of the body
  (the exception included) is passed on unchanged, and nothing else of the state is touched.
\<close>

theorem lifespan_always_disposes:
  "engine_disposed (fst (lifespan body s))
   \<and> snd (lifespan body s) = snd (body s)
   \<and> requests_served (fst (lifespan body s)) = requests_served (fst (body s))"
  by (cases "body s"; cases "snd (body s)") (auto simp: lifespan_def engine_dispose_def)

subsection \<open>Configuration\<close>

lemma Settings_init_Inr:
  "Settings_init p src = Inr s \<Longrightarrow>
     encryption_key s = or_default (src_encryption_key src) (generated_key p)
   \<and> jwt_secret_key s = or_default (src_jwt_secret_key src) ''sample-secret-key-dont-use-in-production''
   \<and> jwt_access_token_expire_minutes s = or_default (src_jwt_access_token_expire_minutes src) 30
   \<and> jwt_refresh_token_expire_minutes s = or_default (src_jwt_refresh_token_expire_minutes src) 43200"
  by (auto simp: Settings_init_def split: option.splits list.splits)

lemma Settings_init_succeeds_iff:
  "(\<exists>s. Settings_init p src = Inr s) \<longleftrightarrow> source_errors p src = []"
  by (auto simp: Settings_init_def source_errors_def split: option.splits list.splits)

lemma Settings_init_Inl:
  "Settings_init p src = Inl errs \<Longrightarrow> errs = source_errors p src"
  by (auto simp: Settings_init_def split: option.splits list.splits)

lemma Settings_init_fails:
  "src_auth_database_url src = None \<Longrightarrow> Settings_init p src = Inl (source_errors p src)"
  by (simp add: Settings_init_def)

lemma Settings_init_fails_iff:
  "source_errors p src \<noteq> [] \<Longrightarrow> Settings_init p src = Inl (source_errors p src)"
  by (auto simp: Settings_init_def split: option.splits list.splits)

lemma Settings_init_succeeds:
  "source_errors p src = [] \<Longrightarrow> \<exists>s. Settings_init p src = Inr s"
  by (simp add: Settings_init_succeeds_iff)

lemma source_errors_jwt_secret:
  "source_errors p (src\<lparr>src_jwt_secret_key := k\<rparr>) = source_errors p src"
  by (simp add: source_errors_def)

lemma jwt_secret_never_missing:
  "MissingField ''jwt_secret_key'' \<notin> set (source_errors p src)"
  by (auto simp: source_errors_def split: option.splits)

lemma database_url_missing:
  "src_auth_database_url src = None \<Longrightarrow> MissingField ''auth_database_url'' \<in> set (source_errors p src)"
  by (simp add: source_errors_def)

text \<open>
  C1, as stated, fails. The claim: for any two runs under the same configuration, also
  one that does not set the key, the effective encryption key is the same. The default of
  \<^verbatim>\<open>encryption_key\<close> is \<^verbatim>\<open>Fernet.generate_key().decode()\<close>, evaluated anew in
  every process. Two runs under the configuration that sets the database URL only, whose
  generated keys differ, end with different encryption keys.
\<close>

theorem encryption_key_differs_across_runs:
  "src_encryption_key source_only_db = None
   \<and> map_sum id encryption_key (Settings_init run_a source_only_db)
       = Inr ''AAAAAAAAAAAAAAAAAAAAAAAAAAAAAAAAAAAAAAAAAAA=''
   \<and> map_sum id encryption_key (Settings_init run_b source_only_db)
       = Inr ''__________________________________________8=''
   \<and> map_sum id encryption_key (Settings_init run_a source_only_db)
       \<noteq> map_sum id encryption_key (Settings_init run_b source_only_db)"
  by (simp add: Settings_init_def source_errors_def source_only_db_def run_a_def run_b_def or_default_def)

text \<open>
  C1, amended. The encryption key is taken from the configuration when the configuration
  sets it: any two runs under the same configuration that sets \<^verbatim>\<open>encryption_key\<close>
  use that value. When the configuration does not set it, each run uses the key generated
  when it started. Within one run the key does not change: once \<open>get_settings\<close> has
  returned, every later call returns the same settings, whatever the sources say by then.
\<close>

theorem encryption_key_from_configuration:
  assumes "Settings_init p1 src = Inr s1" and "Settings_init p2 src = Inr s2"
  shows "(src_encryption_key src = Some k \<longrightarrow> encryption_key s1 = k \<and> encryption_key s2 = k)
       \<and> (src_encryption_key src = None \<longrightarrow>
            encryption_key s1 = generated_key p1 \<and> encryption_key s2 = generated_key p2)
       \<and> (\<forall>src'. fst (get_settings p1 src' (snd (get_settings p1 src None))) = Inr s1)"
  using assms Settings_init_Inr[OF assms(1)] Settings_init_Inr[OF assms(2)]
  by (auto simp: or_default_def get_settings_def)

theorem encryption_key_from_configuration_witness:
  "\<exists>s1 s2 t1 t2.
     Settings_init run_a (source_only_db\<lparr>src_encryption_key := Some ''Zm9vYmFyYmF6cXV4Zm9vYmFyYmF6cXV4Zm9vYmFyYmE=''\<rparr>) = Inr s1
   \<and> Settings_init run_b (source_only_db\<lparr>src_encryption_key := Some ''Zm9vYmFyYmF6cXV4Zm9vYmFyYmF6cXV4Zm9vYmFyYmE=''\<rparr>) = Inr s2
   \<and> encryption_key s1 = ''Zm9vYmFyYmF6cXV4Zm9vYmFyYmF6cXV4Zm9vYmFyYmE=''
   \<and> encryption_key s2 = ''Zm9vYmFyYmF6cXV4Zm9vYmFyYmF6cXV4Zm9vYmFyYmE=''
   \<and> Settings_init run_a source_only_db = Inr t1
   \<and> Settings_init run_b source_only_db = Inr t2
   \<and> encryption_key t1 = generated_key run_a
   \<and> encryption_key t2 = generated_key run_b
   \<and> fst (get_settings run_a source_only_db (snd (get_settings run_a source_only_db None))) = Inr t1"
proof -
  let ?k = "''Zm9vYmFyYmF6cXV4Zm9vYmFyYmF6cXV4Zm9vYmFyYmE=''"
  let ?src = "source_only_db\<lparr>src_encryption_key := Some ?k\<rparr>"
  have s1_ok: "source_errors run_a ?src = []"
    by (simp add: source_errors_def source_only_db_def)
  obtain s1 where s1: "Settings_init run_a ?src = Inr s1"
    using Settings_init_succeeds[OF s1_ok] by blast
  have s2_ok: "source_errors run_b ?src = []"
    by (simp add: source_errors_def source_only_db_def)
  obtain s2 where s2: "Settings_init run_b ?src = Inr s2"
    using Settings_init_succeeds[OF s2_ok] by blast
  have t1_ok: "source_errors run_a source_only_db = []"
    by (simp add: source_errors_def source_only_db_def)
  obtain t1 where t1: "Settings_init run_a source_only_db = Inr t1"
    using Settings_init_succeeds[OF t1_ok] by blast
  have t2_ok: "source_errors run_b source_only_db = []"
    by (simp add: source_errors_def source_only_db_def)
  obtain t2 where t2: "Settings_init run_b source_only_db = Inr t2"
    using Settings_init_succeeds[OF t2_ok] by blast
  have k: "src_encryption_key ?src = Some ?k" by simp
  have n: "src_encryption_key source_only_db = None" by (simp add: source_only_db_def)
  from encryption_key_from_configuration[OF s1 s2, of ?k] k
  have a: "encryption_key s1 = ?k \<and> encryption_key s2 = ?k" by blast
  from encryption_key_from_configuration[OF t1 t2, of ?k] n
  have b: "encryption_key t1 = generated_key run_a \<and> encryption_key t2 = generated_key run_b
     \<and> fst (get_settings run_a source_only_db (snd (get_settings run_a source_only_db None))) = Inr t1"
    by blast
  from s1 s2 t1 t2 a b show ?thesis by blast
qed

text \<open>
  C2, as stated, fails. The claim: a configuration without the JWT signing secret makes
  construction of the configuration fail. \<^verbatim>\<open>jwt_secret_key\<close> has the default
  \<^verbatim>\<open>"sample-secret-key-dont-use-in-production"\<close>: under the configuration that sets the
  database URL only, construction succeeds and the signing key is that sample value.
\<close>

theorem missing_jwt_secret_is_accepted:
  "src_jwt_secret_key source_only_db = None
   \<and> map_sum id jwt_secret_key (Settings_init run_a source_only_db)
       = Inr ''sample-secret-key-dont-use-in-production''
   \<and> map_sum id jwt_secret_key (fst (get_settings run_a source_only_db None))
       = Inr ''sample-secret-key-dont-use-in-production''"
  by (simp add: Settings_init_def source_errors_def get_settings_def source_only_db_def or_default_def)

text \<open>
  C2, amended. A missing JWT signing secret never makes construction of the configuration
  fail. Without the secret, construction succeeds or fails exactly as it does with a secret
  supplied, with the same errors; no error reports the secret as missing; and when
  construction succeeds the signing key is the sample key, or the supplied secret when
  there is one. What is fatal at startup is a missing database URL, the one field without
  a default: construction then fails at the first \<open>get_settings\<close>, with the missing
  field among the errors, and nothing is cached.
\<close>

theorem missing_jwt_secret_is_no_failure:
  "(\<forall>s. src_jwt_secret_key src = None \<and> Settings_init p src = Inr s \<longrightarrow>
        jwt_secret_key s = ''sample-secret-key-dont-use-in-production'')
   \<and> (\<forall>k s. src_jwt_secret_key src = Some k \<and> Settings_init p src = Inr s \<longrightarrow> jwt_secret_key s = k)
   \<and> ((\<exists>s. Settings_init p (src\<lparr>src_jwt_secret_key := None\<rparr>) = Inr s)
        \<longleftrightarrow> (\<exists>s. Settings_init p (src\<lparr>src_jwt_secret_key := Some k'\<rparr>) = Inr s))
   \<and> (\<forall>errs. Settings_init p (src\<lparr>src_jwt_secret_key := None\<rparr>) = Inl errs
        \<longleftrightarrow> Settings_init p (src\<lparr>src_jwt_secret_key := Some k'\<rparr>) = Inl errs)
   \<and> (\<forall>errs. Settings_init p src = Inl errs \<longrightarrow> MissingField ''jwt_secret_key'' \<notin> set errs)
   \<and> (src_auth_database_url src = None \<longrightarrow>
        (\<exists>errs. Settings_init p src = Inl errs \<and> MissingField ''auth_database_url'' \<in> set errs
           \<and> get_settings p src None = (Inl errs, None)))"
proof (intro conjI allI impI)
  fix s assume "src_jwt_secret_key src = None \<and> Settings_init p src = Inr s"
  then show "jwt_secret_key s = ''sample-secret-key-dont-use-in-production''"
    using Settings_init_Inr[of p src s] by (simp add: or_default_def)
next
  fix k s assume "src_jwt_secret_key src = Some k \<and> Settings_init p src = Inr s"
  then show "jwt_secret_key s = k"
    using Settings_init_Inr[of p src s] by (simp add: or_default_def)
next
  show "(\<exists>s. Settings_init p (src\<lparr>src_jwt_secret_key := None\<rparr>) = Inr s)
        \<longleftrightarrow> (\<exists>s. Settings_init p (src\<lparr>src_jwt_secret_key := Some k'\<rparr>) = Inr s)"
    by (simp add: Settings_init_succeeds_iff source_errors_jwt_secret)
next
  fix errs
  let ?n = "src\<lparr>src_jwt_secret_key := None\<rparr>" and ?k = "src\<lparr>src_jwt_secret_key := Some k'\<rparr>"
  have same: "source_errors p ?n = source_errors p ?k"
    by (simp add: source_errors_jwt_secret)
  show "Settings_init p ?n = Inl errs \<longleftrightarrow> Settings_init p ?k = Inl errs"
  proof (cases "source_errors p src = []")
    case True
    then have "\<exists>s. Settings_init p ?n = Inr s" "\<exists>s. Settings_init p ?k = Inr s"
      by (simp_all add: Settings_init_succeeds_iff source_errors_jwt_secret)
    then show ?thesis by auto
  next
    case False
    then have "Settings_init p ?n = Inl (source_errors p ?n)" "Settings_init p ?k = Inl (source_errors p ?k)"
      by (simp_all add: Settings_init_fails_iff source_errors_jwt_secret)
    with same show ?thesis by simp
  qed
next
  fix errs assume "Settings_init p src = Inl errs"
  then have "errs = source_errors p src" by (rule Settings_init_Inl)
  then show "MissingField ''jwt_secret_key'' \<notin> set errs"
    by (simp add: jwt_secret_never_missing)
next
  assume none: "src_auth_database_url src = None"
  then have "Settings_init p src = Inl (source_errors p src)" by (rule Settings_init_fails)
  moreover from none have "MissingField ''auth_database_url'' \<in> set (source_errors p src)"
    by (rule database_url_missing)
  ultimately show "\<exists>errs. Settings_init p src = Inl errs \<and> MissingField ''auth_database_url'' \<in> set errs
           \<and> get_settings p src None = (Inl errs, None)"
    by (simp add: get_settings_def)
qed

theorem missing_jwt_secret_is_no_failure_witness:
  "src_jwt_secret_key source_only_db = None
   \<and> (\<exists>s. Settings_init run_a source_only_db = Inr s
          \<and> jwt_secret_key s = ''sample-secret-key-dont-use-in-production'')
   \<and> src_jwt_secret_key (source_only_db\<lparr>src_jwt_secret_key := Some ''k3y''\<rparr>) = Some ''k3y''
   \<and> (\<exists>s. Settings_init run_a (source_only_db\<lparr>src_jwt_secret_key := Some ''k3y''\<rparr>) = Inr s
          \<and> jwt_secret_key s = ''k3y'')
   \<and> Settings_init run_a (source_only_db\<lparr>src_auth_timezone := Some ''Mars/Phobos''\<rparr>)
        = Inl [InvalidValue ''auth_timezone'']
   \<and> MissingField ''jwt_secret_key'' \<notin> set [InvalidValue ''auth_timezone'']
   \<and> src_auth_database_url (source_only_db\<lparr>src_auth_database_url := None\<rparr>) = None
   \<and> (\<exists>errs. Settings_init run_a (source_only_db\<lparr>src_auth_database_url := None\<rparr>) = Inl errs
          \<and> MissingField ''auth_database_url'' \<in> set errs
          \<and> get_settings run_a (source_only_db\<lparr>src_auth_database_url := None\<rparr>) None = (Inl errs, None))"
proof -
  let ?s0 = "source_only_db\<lparr>src_auth_database_url := None\<rparr>"
  let ?s2 = "source_only_db\<lparr>src_jwt_secret_key := Some ''k3y''\<rparr>"
  let ?s3 = "source_only_db\<lparr>src_auth_timezone := Some ''Mars/Phobos''\<rparr>"
  have h0: "src_auth_database_url ?s0 = None" by simp
  have h1: "src_jwt_secret_key source_only_db = None" by (simp add: source_only_db_def)
  have h2: "src_jwt_secret_key ?s2 = Some ''k3y''" by simp
  have s_ok: "source_errors run_a source_only_db = []"
    by (simp add: source_errors_def source_only_db_def)
  obtain s where s: "Settings_init run_a source_only_db = Inr s"
    using Settings_init_succeeds[OF s_ok] by blast
  have t_ok: "source_errors run_a ?s2 = []"
    by (simp add: source_errors_def source_only_db_def)
  obtain t where t: "Settings_init run_a ?s2 = Inr t"
    using Settings_init_succeeds[OF t_ok] by blast
  have e: "Settings_init run_a ?s3 = Inl [InvalidValue ''auth_timezone'']"
    by (simp add: Settings_init_def source_errors_def source_only_db_def run_a_def)
  from missing_jwt_secret_is_no_failure[of source_only_db run_a] h1 s
  have a: "jwt_secret_key s = ''sample-secret-key-dont-use-in-production''" by blast
  from missing_jwt_secret_is_no_failure[of ?s2 run_a] h2 t
  have b: "jwt_secret_key t = ''k3y''" by blast
  from missing_jwt_secret_is_no_failure[of ?s3 run_a] e
  have c: "MissingField ''jwt_secret_key'' \<notin> set [InvalidValue ''auth_timezone'']" by blast
  from missing_jwt_secret_is_no_failure[of ?s0 run_a] h0
  have d: "\<exists>errs. Settings_init run_a ?s0 = Inl errs \<and> MissingField ''auth_database_url'' \<in> set errs
          \<and> get_settings run_a ?s0 None = (Inl errs, None)" by blast
  from h0 h1 h2 s t e a b c d show ?thesis by blast
qed

text \<open>
  C8, as stated, fails in one part. The claim: the refresh-token lifetime is configured in
  days. The setting is \<^verbatim>\<open>jwt_refresh_token_expire_minutes\<close>, a number of minutes: the
  configured value 1 gives a refresh lifetime of 1 minute, which is neither 1 day nor any
  whole number of days.
\<close>

theorem refresh_lifetime_not_in_days:
  "map_sum id jwt_refresh_token_expire_minutes
     (Settings_init run_a (source_only_db\<lparr>src_jwt_refresh_token_expire_minutes := Some 1\<rparr>)) = Inr 1
   \<and> (1::int) \<noteq> 1 * (24 * 60)
   \<and> \<not> (24 * 60 :: int) dvd 1"
  by (simp add: Settings_init_def source_errors_def source_only_db_def or_default_def)

text \<open>
  C8, amended. Both lifetimes are configured in minutes and a configured value is used as
  it is. In the default configuration the access token lives 30 minutes and the refresh
  token 43200 minutes, which is 30 days, so the default refresh lifetime strictly exceeds
  the default access lifetime.
\<close>

theorem token_lifetimes_in_minutes:
  assumes "Settings_init p src = Inr s"
  shows "(\<forall>a. src_jwt_access_token_expire_minutes src = Some a \<longrightarrow> jwt_access_token_expire_minutes s = a)
       \<and> (\<forall>r. src_jwt_refresh_token_expire_minutes src = Some r \<longrightarrow> jwt_refresh_token_expire_minutes s = r)
       \<and> (src_jwt_access_token_expire_minutes src = None \<longrightarrow> jwt_access_token_expire_minutes s = 30)
       \<and> (src_jwt_refresh_token_expire_minutes src = None \<longrightarrow>
            jwt_refresh_token_expire_minutes s = 43200 \<and> jwt_refresh_token_expire_minutes s = 30 * (24 * 60))
       \<and> (src_jwt_access_token_expire_minutes src = None \<and> src_jwt_refresh_token_expire_minutes src = None \<longrightarrow>
            jwt_access_token_expire_minutes s < jwt_refresh_token_expire_minutes s)"
  using Settings_init_Inr[OF assms] by (auto simp: or_default_def)

theorem token_lifetimes_in_minutes_witness:
  "\<exists>s t. Settings_init run_a source_only_db = Inr s
     \<and> src_jwt_access_token_expire_minutes source_only_db = None
     \<and> src_jwt_refresh_token_expire_minutes source_only_db = None
     \<and> jwt_access_token_expire_minutes s = 30
     \<and> jwt_refresh_token_expire_minutes s = 43200
     \<and> jwt_access_token_expire_minutes s < jwt_refresh_token_expire_minutes s
     \<and> Settings_init run_a (source_only_db\<lparr>src_jwt_access_token_expire_minutes := Some 5,
            src_jwt_refresh_token_expire_minutes := Some 90\<rparr>) = Inr t
     \<and> jwt_access_token_expire_minutes t = 5
     \<and> jwt_refresh_token_expire_minutes t = 90"
proof -
  let ?src = "source_only_db\<lparr>src_jwt_access_token_expire_minutes := Some 5,
            src_jwt_refresh_token_expire_minutes := Some 90\<rparr>"
  have s_ok: "source_errors run_a source_only_db = []"
    by (simp add: source_errors_def source_only_db_def)
  obtain s where s: "Settings_init run_a source_only_db = Inr s"
    using Settings_init_succeeds[OF s_ok] by blast
  have t_ok: "source_errors run_a ?src = []"
    by (simp add: source_errors_def source_only_db_def)
  obtain t where t: "Settings_init run_a ?src = Inr t"
    using Settings_init_succeeds[OF t_ok] by blast
  have n: "src_jwt_access_token_expire_minutes source_only_db = None"
          "src_jwt_refresh_token_expire_minutes source_only_db = None"
    by (simp_all add: source_only_db_def)
  from token_lifetimes_in_minutes[OF s] n
  have a: "jwt_access_token_expire_minutes s = 30 \<and> jwt_refresh_token_expire_minutes s = 43200
     \<and> jwt_access_token_expire_minutes s < jwt_refresh_token_expire_minutes s" by simp
  from token_lifetimes_in_minutes[OF t]
  have b: "jwt_access_token_expire_minutes t = 5 \<and> jwt_refresh_token_expire_minutes t = 90" by simp
  from s t n a b show ?thesis by blast
qed

subsection \<open>Payload schemas\<close>

lemma required_str_Inr: "(\<exists>v. required_str d f = Inr v) \<longleftrightarrow> holds_str d f"
  by (auto simp: required_str_def holds_str_def split: option.splits json.splits)

lemma required_nullable_str_Inr: "(\<exists>v. required_nullable_str d f = Inr v) \<longleftrightarrow> holds_str_or_null d f"
  by (auto simp: required_nullable_str_def holds_str_or_null_def split: option.splits json.splits)

lemma required_str_Missing: "d f = None \<Longrightarrow> required_str d f = Inl (Missing f)"
  by (simp add: required_str_def)

lemma required_nullable_str_Missing: "d f = None \<Longrightarrow> required_nullable_str d f = Inl (Missing f)"
  by (simp add: required_nullable_str_def)

lemma UserPasswordLoginSchema_ok:
  "(\<exists>r. UserPasswordLoginSchema_validate d = Inr r) \<longleftrightarrow> holds_str d ''email'' \<and> holds_str_or_null d ''password''"
  unfolding required_str_Inr[symmetric] required_nullable_str_Inr[symmetric]
  by (auto simp: UserPasswordLoginSchema_validate_def split: sum.splits)

lemma UserSignupSchema_ok:
  "(\<exists>r. UserSignupSchema_validate d = Inr r) \<longleftrightarrow>
     holds_str d ''email'' \<and> holds_str_or_null d ''password''
   \<and> holds_str_or_null d ''name'' \<and> holds_str_or_null d ''profile_pic''"
  unfolding required_str_Inr[symmetric] required_nullable_str_Inr[symmetric]
  by (auto simp: UserSignupSchema_validate_def split: sum.splits)

lemma UserJWTResponseSchema_ok:
  "(\<exists>r. UserJWTResponseSchema_validate d = Inr r) \<longleftrightarrow>
     holds_str d ''access_token'' \<and> holds_str d ''refresh_token''"
  unfolding required_str_Inr[symmetric] required_nullable_str_Inr[symmetric]
  by (auto simp: UserJWTResponseSchema_validate_def split: sum.splits)

lemma UserSocialLoginSchema_ok:
  "(\<exists>r. UserSocialLoginSchema_validate d = Inr r) \<longleftrightarrow>
     holds_str d ''provider'' \<and> holds_str_or_null d ''access_token'' \<and> holds_str_or_null d ''code''"
  unfolding required_str_Inr[symmetric] required_nullable_str_Inr[symmetric]
  by (auto simp: UserSocialLoginSchema_validate_def split: sum.splits)

lemma UserSignupResponseSchema_ok:
  "(\<exists>r. UserSignupResponseSchema_validate d = Inr r) \<longleftrightarrow>
     holds_str_or_null d ''access_token'' \<and> holds_str_or_null d ''refresh_token'' \<and> holds_str d ''message''"
  unfolding required_str_Inr[symmetric] required_nullable_str_Inr[symmetric]
  by (auto simp: UserSignupResponseSchema_validate_def split: sum.splits)

lemma UserPasswordLoginSchema_missing:
  "f \<in> {''email'', ''password''} \<Longrightarrow> d f = None \<Longrightarrow>
     \<exists>es. UserPasswordLoginSchema_validate d = Inl es \<and> Missing f \<in> set es"
  by (auto simp: UserPasswordLoginSchema_validate_def required_str_Missing
        required_nullable_str_Missing errors_of_def split: sum.splits)

lemma UserSignupSchema_missing:
  "f \<in> {''email'', ''password'', ''name'', ''profile_pic''} \<Longrightarrow> d f = None \<Longrightarrow>
     \<exists>es. UserSignupSchema_validate d = Inl es \<and> Missing f \<in> set es"
  by (auto simp: UserSignupSchema_validate_def required_str_Missing
        required_nullable_str_Missing errors_of_def split: sum.splits)

lemma UserJWTResponseSchema_missing:
  "f \<in> {''access_token'', ''refresh_token''} \<Longrightarrow> d f = None \<Longrightarrow>
     \<exists>es. UserJWTResponseSchema_validate d = Inl es \<and> Missing f \<in> set es"
  by (auto simp: UserJWTResponseSchema_validate_def required_str_Missing
        required_nullable_str_Missing errors_of_def split: sum.splits)

lemma UserSocialLoginSchema_missing:
  "f \<in> {''provider'', ''access_token'', ''code''} \<Longrightarrow> d f = None \<Longrightarrow>
     \<exists>es. UserSocialLoginSchema_validate d = Inl es \<and> Missing f \<in> set es"
  by (auto simp: UserSocialLoginSchema_validate_def required_str_Missing
        required_nullable_str_Missing errors_of_def split: sum.splits)

lemma UserSignupResponseSchema_missing:
  "f \<in> {''access_token'', ''refresh_token'', ''message''} \<Longrightarrow> d f = None \<Longrightarrow>
     \<exists>es. UserSignupResponseSchema_validate d = Inl es \<and> Missing f \<in> set es"
  by (auto simp: UserSignupResponseSchema_validate_def required_str_Missing
        required_nullable_str_Missing errors_of_def split: sum.splits)

text \<open>
  C6, as stated, fails in its first half. The claim: the fields marked optional may be
  omitted from the input and validation still succeeds. None of these fields has a
  default, so each must be present: a login payload without \<^verbatim>\<open>password\<close>, a signup
  payload with \<^verbatim>\<open>email\<close> only, a social-login payload without
  \<^verbatim>\<open>access_token\<close> and a signup response with \<^verbatim>\<open>message\<close> only are all rejected,
  with a missing-field error for every omitted field.
\<close>

theorem omitted_optional_field_is_rejected:
  "UserPasswordLoginSchema_validate [''email'' \<mapsto> JStr ''a@x.com''] = Inl [Missing ''password'']
   \<and> UserSignupSchema_validate [''email'' \<mapsto> JStr ''a@x.com'']
       = Inl [Missing ''password'', Missing ''name'', Missing ''profile_pic'']
   \<and> UserSocialLoginSchema_validate [''provider'' \<mapsto> JStr ''google'', ''code'' \<mapsto> JStr ''4/0Ab'']
       = Inl [Missing ''access_token'']
   \<and> UserSignupResponseSchema_validate [''message'' \<mapsto> JStr ''ok'']
       = Inl [Missing ''access_token'', Missing ''refresh_token'']"
  by (simp add: UserPasswordLoginSchema_validate_def UserSignupSchema_validate_def
        UserSocialLoginSchema_validate_def UserSignupResponseSchema_validate_def
        required_str_def required_nullable_str_def errors_of_def)

text \<open>
  C6, amended. For every payload and each of the five schemas, validation succeeds exactly
  when every declared field is present and holds a value of its type: a string for the
  unmarked fields (\<^verbatim>\<open>email\<close>; \<^verbatim>\<open>provider\<close>; \<^verbatim>\<open>message\<close>; both fields of
  \<^verbatim>\<open>UserJWTResponseSchema\<close>), a string or null for the fields marked optional. Whenever
  a declared field is absent, marked optional or not, validation fails and reports that
  field as missing.
\<close>

theorem schema_fields_must_be_present:
  "((\<exists>r. UserSignupSchema_validate d = Inr r) \<longleftrightarrow>
       holds_str d ''email'' \<and> holds_str_or_null d ''password''
     \<and> holds_str_or_null d ''name'' \<and> holds_str_or_null d ''profile_pic'')
   \<and> ((\<exists>r. UserPasswordLoginSchema_validate d = Inr r) \<longleftrightarrow>
       holds_str d ''email'' \<and> holds_str_or_null d ''password'')
   \<and> ((\<exists>r. UserSocialLoginSchema_validate d = Inr r) \<longleftrightarrow>
       holds_str d ''provider'' \<and> holds_str_or_null d ''access_token'' \<and> holds_str_or_null d ''code'')
   \<and> ((\<exists>r. UserSignupResponseSchema_validate d = Inr r) \<longleftrightarrow>
       holds_str_or_null d ''access_token'' \<and> holds_str_or_null d ''refresh_token''
     \<and> holds_str d ''message'')
   \<and> ((\<exists>r. UserJWTResponseSchema_validate d = Inr r) \<longleftrightarrow>
       holds_str d ''access_token'' \<and> holds_str d ''refresh_token'')
   \<and> (\<forall>f \<in> {''email'', ''password'', ''name'', ''profile_pic''}. d f = None \<longrightarrow>
         (\<exists>es. UserSignupSchema_validate d = Inl es \<and> Missing f \<in> set es))
   \<and> (\<forall>f \<in> {''email'', ''password''}. d f = None \<longrightarrow>
         (\<exists>es. UserPasswordLoginSchema_validate d = Inl es \<and> Missing f \<in> set es))
   \<and> (\<forall>f \<in> {''provider'', ''access_token'', ''code''}. d f = None \<longrightarrow>
         (\<exists>es. UserSocialLoginSchema_validate d = Inl es \<and> Missing f \<in> set es))
   \<and> (\<forall>f \<in> {''access_token'', ''refresh_token'', ''message''}. d f = None \<longrightarrow>
         (\<exists>es. UserSignupResponseSchema_validate d = Inl es \<and> Missing f \<in> set es))
   \<and> (\<forall>f \<in> {''access_token'', ''refresh_token''}. d f = None \<longrightarrow>
         (\<exists>es. UserJWTResponseSchema_validate d = Inl es \<and> Missing f \<in> set es))"
proof -
  have m1: "\<forall>f \<in> {''email'', ''password'', ''name'', ''profile_pic''}. d f = None \<longrightarrow>
         (\<exists>es. UserSignupSchema_validate d = Inl es \<and> Missing f \<in> set es)"
    using UserSignupSchema_missing[of _ d] by blast
  have m2: "\<forall>f \<in> {''email'', ''password''}. d f = None \<longrightarrow>
         (\<exists>es. UserPasswordLoginSchema_validate d = Inl es \<and> Missing f \<in> set es)"
    using UserPasswordLoginSchema_missing[of _ d] by blast
  have m3: "\<forall>f \<in> {''provider'', ''access_token'', ''code''}. d f = None \<longrightarrow>
         (\<exists>es. UserSocialLoginSchema_validate d = Inl es \<and> Missing f \<in> set es)"
    using UserSocialLoginSchema_missing[of _ d] by blast
  have m4: "\<forall>f \<in> {''access_token'', ''refresh_token'', ''message''}. d f = None \<longrightarrow>
         (\<exists>es. UserSignupResponseSchema_validate d = Inl es \<and> Missing f \<in> set es)"
    using UserSignupResponseSchema_missing[of _ d] by blast
  have m5: "\<forall>f \<in> {''access_token'', ''refresh_token''}. d f = None \<longrightarrow>
         (\<exists>es. UserJWTResponseSchema_validate d = Inl es \<and> Missing f \<in> set es)"
    using UserJWTResponseSchema_missing[of _ d] by blast
  show ?thesis
    by (intro conjI UserSignupSchema_ok UserPasswordLoginSchema_ok UserSocialLoginSchema_ok
          UserSignupResponseSchema_ok UserJWTResponseSchema_ok m1 m2 m3 m4 m5)
qed

theorem schema_fields_must_be_present_witness:
  "''password'' \<in> {''email'', ''password''}
   \<and> [''email'' \<mapsto> JStr ''a@x.com''] ''password'' = None
   \<and> (\<exists>es. UserPasswordLoginSchema_validate [''email'' \<mapsto> JStr ''a@x.com''] = Inl es
          \<and> Missing ''password'' \<in> set es)
   \<and> ''refresh_token'' \<in> {''access_token'', ''refresh_token''}
   \<and> [''access_token'' \<mapsto> JStr ''t''] ''refresh_token'' = None
   \<and> (\<exists>es. UserJWTResponseSchema_validate [''access_token'' \<mapsto> JStr ''t''] = Inl es
          \<and> Missing ''refresh_token'' \<in> set es)
   \<and> holds_str [''email'' \<mapsto> JStr ''a@x.com'', ''password'' \<mapsto> JNull] ''email''
   \<and> holds_str_or_null [''email'' \<mapsto> JStr ''a@x.com'', ''password'' \<mapsto> JNull] ''password''
   \<and> (\<exists>r. UserPasswordLoginSchema_validate [''email'' \<mapsto> JStr ''a@x.com'', ''password'' \<mapsto> JNull] = Inr r)"
proof -
  let ?d = "[''email'' \<mapsto> JStr ''a@x.com''] :: payload"
  let ?j = "[''access_token'' \<mapsto> JStr ''t''] :: payload"
  let ?n = "[''email'' \<mapsto> JStr ''a@x.com'', ''password'' \<mapsto> JNull] :: payload"
  have h1: "''password'' \<in> {''email'', ''password''}" "?d ''password'' = None" by simp_all
  have h2: "''refresh_token'' \<in> {''access_token'', ''refresh_token''}" "?j ''refresh_token'' = None"
    by simp_all
  have h3: "holds_str ?n ''email''" "holds_str_or_null ?n ''password''"
    by (simp_all add: holds_str_def holds_str_or_null_def)
  from schema_fields_must_be_present[of ?d]
  have "\<forall>f \<in> {''email'', ''password''}. ?d f = None \<longrightarrow>
         (\<exists>es. UserPasswordLoginSchema_validate ?d = Inl es \<and> Missing f \<in> set es)"
    by (elim conjE)
  with h1 have a: "\<exists>es. UserPasswordLoginSchema_validate ?d = Inl es \<and> Missing ''password'' \<in> set es"
    by blast
  from schema_fields_must_be_present[of ?j]
  have "\<forall>f \<in> {''access_token'', ''refresh_token''}. ?j f = None \<longrightarrow>
         (\<exists>es. UserJWTResponseSchema_validate ?j = Inl es \<and> Missing f \<in> set es)"
    by (elim conjE)
  with h2 have b: "\<exists>es. UserJWTResponseSchema_validate ?j = Inl es \<and> Missing ''refresh_token'' \<in> set es"
    by blast
  from schema_fields_must_be_present[of ?n]
  have "(\<exists>r. UserPasswordLoginSchema_validate ?n = Inr r) \<longleftrightarrow>
       holds_str ?n ''email'' \<and> holds_str_or_null ?n ''password''"
    by (elim conjE)
  with h3 have c: "\<exists>r. UserPasswordLoginSchema_validate ?n = Inr r" by blast
  from h1 h2 h3 a b c show ?thesis by blast
qed

subsection \<open>The user table\<close>

text \<open>
  C10. A \<^verbatim>\<open>User\<close> created without an \<^verbatim>\<open>is_staff\<close> value is stored with
  \<^verbatim>\<open>is_staff\<close> false: when the INSERT succeeds, the table has gained exactly one row,
  and its flag is \<open>False\<close>.
\<close>

theorem new_user_is_not_staff:
  assumes "kw_is_staff kw = None" and "insert_User tbl kw = Inr tbl'"
  shows "\<exists>u. tbl' = tbl @ [u] \<and> User.is_staff u = False"
  using assms by (auto simp: insert_User_def or_default_def split: option.splits if_splits)

theorem new_user_is_not_staff_witness:
  "kw_is_staff \<lparr> kw_name = None, kw_email = Some ''a@x.com'', kw_profile_pic = None,
       kw_password = Some ''$2b$12$abc'', kw_roles = [], kw_is_staff = None \<rparr> = None
   \<and> insert_User [] \<lparr> kw_name = None, kw_email = Some ''a@x.com'', kw_profile_pic = None,
       kw_password = Some ''$2b$12$abc'', kw_roles = [], kw_is_staff = None \<rparr>
       = Inr [\<lparr> User.name = None, User.email = ''a@x.com'', User.profile_pic = None,
               User.password = Some ''$2b$12$abc'', User.roles = [], User.is_staff = False \<rparr>]
   \<and> (\<exists>u. [\<lparr> User.name = None, User.email = ''a@x.com'', User.profile_pic = None,
               User.password = Some ''$2b$12$abc'', User.roles = [], User.is_staff = False \<rparr>] = [] @ [u]
          \<and> User.is_staff u = False)"
proof -
  let ?kw = "\<lparr> kw_name = None, kw_email = Some ''a@x.com'', kw_profile_pic = None,
       kw_password = Some ''$2b$12$abc'', kw_roles = [], kw_is_staff = None \<rparr>"
  let ?u = "\<lparr> User.name = None, User.email = ''a@x.com'', User.profile_pic = None,
               User.password = Some ''$2b$12$abc'', User.roles = [], User.is_staff = False \<rparr>"
  have h1: "kw_is_staff ?kw = None" by simp
  have h2: "insert_User [] ?kw = Inr [?u]" by (simp add: insert_User_def or_default_def)
  from new_user_is_not_staff[OF h1 h2] h1 h2 show ?thesis by blast
qed

subsection \<open>User directory\<close>

lemma lower_char_idem: "lower_char (lower_char c) = lower_char c"
  by (simp add: lower_char_def Let_def)

lemma normalize_email_idem: "normalize_email (normalize_email e) = normalize_email e"
  by (simp add: normalize_email_def lower_char_idem)

lemma findByEmail_None_iff: "findByEmail dir e = None \<longleftrightarrow> normalize_email e \<notin> set (map User.email dir)"
  unfolding findByEmail_def find_None_iff by force

lemma create_Inr:
  "create dir e n pic pw = Inr dir' \<longleftrightarrow>
     normalize_email e \<notin> set (map User.email dir) \<and>
     dir' = dir @ [\<lparr> User.name = n, User.email = normalize_email e, User.profile_pic = pic,
               User.password = pw, User.roles = [], User.is_staff = False \<rparr>]"
proof (cases "findByEmail dir e")
  case None
  then show ?thesis
    using findByEmail_None_iff[of dir e]
    by (auto simp: create_def insert_User_def or_default_def)
next
  case (Some u)
  then show ?thesis
    using findByEmail_None_iff[of dir e] by (simp add: create_def)
qed

lemma email_apply_changes: "User.email (apply_changes ch u) = User.email u"
  by (simp add: apply_changes_def)

lemma map_email_update: "map User.email (update dir e ch) = map User.email dir"
  by (induction dir) (simp_all add: update_def email_apply_changes)

lemma map_email_assignRole: "map User.email (assignRole dir e r) = map User.email dir"
  by (induction dir) (simp_all add: assignRole_def)

lemma directory_ok_alt:
  "directory_ok dir \<longleftrightarrow> distinct (map User.email dir) \<and> list_all (\<lambda>a. normalize_email a = a) (map User.email dir)"
  by (simp add: directory_ok_def list_all_iff)

lemma directory_ok_create:
  "directory_ok dir \<Longrightarrow> create dir e n pic pw = Inr dir' \<Longrightarrow> directory_ok dir'"
  by (auto simp: create_Inr directory_ok_alt normalize_email_idem)

lemma directory_ok_update: "directory_ok dir \<Longrightarrow> directory_ok (update dir e ch)"
  by (simp add: directory_ok_alt map_email_update)

lemma directory_ok_assignRole: "directory_ok dir \<Longrightarrow> directory_ok (assignRole dir e r)"
  by (simp add: directory_ok_alt map_email_assignRole)

lemma alice_created:
  "create [] ''Alice@X.com'' None None None =
     Inr [\<lparr> User.name = None, User.email = ''alice@x.com'', User.profile_pic = None,
            User.password = None, User.roles = [], User.is_staff = False \<rparr>]"
  by code_simp

text \<open>
  C7. Every stored user has an email, unique and case-normalized, while display name,
  profile picture and password hash may be absent; \<open>create\<close>, \<open>update\<close> and
  \<open>assignRole\<close> preserve this shape. A successful \<open>create\<close> from a well-shaped directory
  gives a well-shaped directory, \<open>update\<close> and \<open>assignRole\<close> always do, and a user
  whose email is new can be created with name, picture and password hash all absent; the
  stored email is then the normalized one.
\<close>

theorem directory_keeps_user_shape:
  assumes "directory_ok dir"
  shows "(\<forall>dir'. create dir e n pic pw = Inr dir' \<longrightarrow> directory_ok dir')
       \<and> directory_ok (update dir e ch)
       \<and> directory_ok (assignRole dir e r)
       \<and> (findByEmail dir e = None \<longrightarrow>
            (\<exists>u. create dir e None None None = Inr (dir @ [u])
               \<and> User.email u = normalize_email e \<and> User.name u = None
               \<and> User.profile_pic u = None \<and> User.password u = None))"
proof (intro conjI allI impI)
  fix dir' assume "create dir e n pic pw = Inr dir'"
  with assms show "directory_ok dir'" by (rule directory_ok_create)
next
  from assms show "directory_ok (update dir e ch)" by (rule directory_ok_update)
next
  from assms show "directory_ok (assignRole dir e r)" by (rule directory_ok_assignRole)
next
  assume "findByEmail dir e = None"
  then have "normalize_email e \<notin> set (map User.email dir)" by (simp add: findByEmail_None_iff)
  then have "create dir e None None None =
      Inr (dir @ [\<lparr> User.name = None, User.email = normalize_email e, User.profile_pic = None,
               User.password = None, User.roles = [], User.is_staff = False \<rparr>])"
    by (simp add: create_Inr)
  then show "\<exists>u. create dir e None None None = Inr (dir @ [u])
               \<and> User.email u = normalize_email e \<and> User.name u = None
               \<and> User.profile_pic u = None \<and> User.password u = None"
    by simp
qed

theorem directory_keeps_user_shape_witness:
  "directory_ok []
   \<and> findByEmail [] ''Alice@X.com'' = None
   \<and> create [] ''Alice@X.com'' None None None =
        Inr [\<lparr> User.name = None, User.email = ''alice@x.com'', User.profile_pic = None,
               User.password = None, User.roles = [], User.is_staff = False \<rparr>]
   \<and> directory_ok [\<lparr> User.name = None, User.email = ''alice@x.com'', User.profile_pic = None,
               User.password = None, User.roles = [], User.is_staff = False \<rparr>]
   \<and> directory_ok (update [\<lparr> User.name = None, User.email = ''alice@x.com'', User.profile_pic = None,
               User.password = None, User.roles = [], User.is_staff = False \<rparr>] ''ALICE@x.com''
               \<lparr> set_name = Some (Some ''Alice''), set_profile_pic = None, set_password = Some (Some ''$2b$12$abc'') \<rparr>)
   \<and> directory_ok (assignRole [\<lparr> User.name = None, User.email = ''alice@x.com'', User.profile_pic = None,
               User.password = None, User.roles = [], User.is_staff = False \<rparr>] ''alice@x.com'' (Role ''admin''))"
proof -
  let ?u = "\<lparr> User.name = None, User.email = ''alice@x.com'', User.profile_pic = None,
               User.password = None, User.roles = [], User.is_staff = False \<rparr>"
  let ?ch = "\<lparr> set_name = Some (Some ''Alice''), set_profile_pic = None, set_password = Some (Some ''$2b$12$abc'') \<rparr>"
  have h0: "directory_ok []" by (simp add: directory_ok_def)
  have f0: "findByEmail [] ''Alice@X.com'' = None" by (simp add: findByEmail_def)
  have c0: "create [] ''Alice@X.com'' None None None = Inr [?u]" by (rule alice_created)
  from directory_keeps_user_shape[OF h0, of "''Alice@X.com''" None None None] c0
  have h1: "directory_ok [?u]" by blast
  from directory_keeps_user_shape[OF h1, of "''ALICE@x.com''" None None None ?ch]
  have a: "directory_ok (update [?u] ''ALICE@x.com'' ?ch)" by blast
  from directory_keeps_user_shape[OF h1, of "''alice@x.com''" None None None _ "Role ''admin''"]
  have b: "directory_ok (assignRole [?u] ''alice@x.com'' (Role ''admin''))" by blast
  from h0 f0 c0 h1 a b show ?thesis by blast
qed

subsection \<open>Password login\<close>

text \<open>
  C5. Password login fails with the same \<open>InvalidCredentials\<close> in all three failure
  cases: no user with that email, a user without password hash, a password that does not
  verify. It has no other failure, so the result tells a caller nothing about which case
  occurred; with a stored hash that verifies, the user is returned.
\<close>

theorem password_login_failures_uniform:
  "(findByEmail dir e = None \<longrightarrow> password_login verify dir e pw = Inl InvalidCredentials)
   \<and> (\<forall>u. findByEmail dir e = Some u \<and> User.password u = None \<longrightarrow>
          password_login verify dir e pw = Inl InvalidCredentials)
   \<and> (\<forall>u h. findByEmail dir e = Some u \<and> User.password u = Some h \<and> \<not> verify pw h \<longrightarrow>
          password_login verify dir e pw = Inl InvalidCredentials)
   \<and> (\<forall>u h. findByEmail dir e = Some u \<and> User.password u = Some h \<and> verify pw h \<longrightarrow>
          password_login verify dir e pw = Inr u)
   \<and> (\<forall>err. password_login verify dir e pw = Inl err \<longrightarrow> err = InvalidCredentials)"
  by (auto simp: password_login_def split: option.splits if_splits)


theorem password_login_failures_uniform_witness:
  "findByEmail [\<lparr> User.name = None, User.email = ''alice@x.com'', User.profile_pic = None,
        User.password = Some ''h:pw'', User.roles = [], User.is_staff = False \<rparr>] ''bob@x.com'' = None
   \<and> password_login (\<lambda>pw h. h = ''h:'' @ pw)
        [\<lparr> User.name = None, User.email = ''alice@x.com'', User.profile_pic = None,
           User.password = Some ''h:pw'', User.roles = [], User.is_staff = False \<rparr>] ''bob@x.com'' ''pw''
       = Inl InvalidCredentials
   \<and> findByEmail [\<lparr> User.name = None, User.email = ''alice@x.com'', User.profile_pic = None,
        User.password = None, User.roles = [], User.is_staff = False \<rparr>] ''Alice@x.com''
       = Some \<lparr> User.name = None, User.email = ''alice@x.com'', User.profile_pic = None,
        User.password = None, User.roles = [], User.is_staff = False \<rparr>
   \<and> password_login (\<lambda>pw h. h = ''h:'' @ pw)
        [\<lparr> User.name = None, User.email = ''alice@x.com'', User.profile_pic = None,
           User.password = None, User.roles = [], User.is_staff = False \<rparr>] ''Alice@x.com'' ''pw''
       = Inl InvalidCredentials
   \<and> findByEmail [\<lparr> User.name = None, User.email = ''alice@x.com'', User.profile_pic = None,
        User.password = Some ''h:pw'', User.roles = [], User.is_staff = False \<rparr>] ''Alice@x.com''
       = Some \<lparr> User.name = None, User.email = ''alice@x.com'', User.profile_pic = None,
        User.password = Some ''h:pw'', User.roles = [], User.is_staff = False \<rparr>
   \<and> \<not> (''h:pw'' = ''h:'' @ ''pq'')
   \<and> password_login (\<lambda>pw h. h = ''h:'' @ pw)
        [\<lparr> User.name = None, User.email = ''alice@x.com'', User.profile_pic = None,
           User.password = Some ''h:pw'', User.roles = [], User.is_staff = False \<rparr>] ''Alice@x.com'' ''pq''
       = Inl InvalidCredentials
   \<and> password_login (\<lambda>pw h. h = ''h:'' @ pw)
        [\<lparr> User.name = None, User.email = ''alice@x.com'', User.profile_pic = None,
           User.password = Some ''h:pw'', User.roles = [], User.is_staff = False \<rparr>] ''Alice@x.com'' ''pw''
       = Inr \<lparr> User.name = None, User.email = ''alice@x.com'', User.profile_pic = None,
           User.password = Some ''h:pw'', User.roles = [], User.is_staff = False \<rparr>"
proof -
  let ?v = "\<lambda>pw h. h = ''h:'' @ pw"
  let ?a = "\<lparr> User.name = None, User.email = ''alice@x.com'', User.profile_pic = None,
        User.password = Some ''h:pw'', User.roles = [], User.is_staff = False \<rparr>"
  let ?n = "\<lparr> User.name = None, User.email = ''alice@x.com'', User.profile_pic = None,
        User.password = None, User.roles = [], User.is_staff = False \<rparr>"
  have f1: "findByEmail [?a] ''bob@x.com'' = None" by code_simp
  have f2: "findByEmail [?n] ''Alice@x.com'' = Some ?n" by code_simp
  have f3: "findByEmail [?a] ''Alice@x.com'' = Some ?a" by code_simp
  have p2: "User.password ?n = None" by simp
  have p3: "User.password ?a = Some ''h:pw''" by simp
  have v3: "\<not> (''h:pw'' = ''h:'' @ ''pq'')" by simp
  have v4: "''h:pw'' = ''h:'' @ ''pw''" by simp
  from password_login_failures_uniform[of "[?a]" "''bob@x.com''" ?v "''pw''"] f1
  have a: "password_login ?v [?a] ''bob@x.com'' ''pw'' = Inl InvalidCredentials" by blast
  from password_login_failures_uniform[of "[?n]" "''Alice@x.com''" ?v "''pw''"] f2 p2
  have b: "password_login ?v [?n] ''Alice@x.com'' ''pw'' = Inl InvalidCredentials" by blast
  from password_login_failures_uniform[of "[?a]" "''Alice@x.com''" ?v "''pq''"] f3 p3 v3
  have c: "password_login ?v [?a] ''Alice@x.com'' ''pq'' = Inl InvalidCredentials" by blast
  from password_login_failures_uniform[of "[?a]" "''Alice@x.com''" ?v "''pw''"] f3 p3 v4
  have d: "password_login ?v [?a] ''Alice@x.com'' ''pw'' = Inr ?a" by blast
  from f1 f2 f3 v3 a b c d show ?thesis by blast
qed

end
